theory Spec2Isabelle
  imports Main "HOL-Library.Sublist"
begin

section \<open>The monthly orders pipeline: dags/monthly\_orders\_insert.py\<close>

text \<open>
  The source is an Airflow DAG of five SQL statements, run in a fixed chain against a
  Snowflake warehouse. Each statement is embedded as a function on the warehouse state.
  Tables are lists of rows (bags with a fixed enumeration order; no property below depends
  on the order), every column is nullable as in a table declared without constraints
  (\<open>None\<close> is SQL NULL), comparisons are three-valued, and a statement that the engine
  aborts returns \<open>Inl\<close> and leaves the warehouse as it was.
\<close>

subsection \<open>SQL values: NULL and three-valued comparison\<close>

datatype sql_error = Date_Parse_Error string

text \<open>\<open>a = b\<close>, \<open>a > b\<close>: NULL when an operand is NULL.\<close>

definition sql_eq :: "'a option \<Rightarrow> 'a option \<Rightarrow> bool option" where
  "sql_eq a b = (case a of None \<Rightarrow> None | Some x \<Rightarrow> (case b of None \<Rightarrow> None | Some y \<Rightarrow> Some (x = y)))"

definition sql_gt :: "int option \<Rightarrow> int option \<Rightarrow> bool option" where
  "sql_gt a b = (case a of None \<Rightarrow> None | Some x \<Rightarrow> (case b of None \<Rightarrow> None | Some y \<Rightarrow> Some (x > y)))"

text \<open>\<open>p AND q\<close>: FALSE dominates NULL.\<close>

definition sql_and :: "bool option \<Rightarrow> bool option \<Rightarrow> bool option" where
  "sql_and p q =
     (if p = Some False \<or> q = Some False then Some False
      else if p = Some True \<and> q = Some True then Some True
      else None)"

text \<open>\<open>x IS NOT NULL\<close> is never NULL itself.\<close>

definition sql_is_not_null :: "'a option \<Rightarrow> bool option" where
  "sql_is_not_null a = Some (a \<noteq> None)"

text \<open>A WHERE or ON clause keeps a row only when the condition is TRUE.\<close>

definition is_true :: "bool option \<Rightarrow> bool" where
  "is_true p = (p = Some True)"

text \<open>\<open>MAX\<close> skips NULLs and is NULL when nothing else is left.\<close>

fun sql_max :: "int option list \<Rightarrow> int option" where
  "sql_max [] = None"
| "sql_max (None # xs) = sql_max xs"
| "sql_max (Some x # xs) = (case sql_max xs of None \<Rightarrow> Some x | Some y \<Rightarrow> Some (max x y))"

subsection \<open>String constants and the sanitising pattern\<close>

text \<open>
  The pattern of every \<open>REGEXP_REPLACE\<close> call is written in the Python file, inside a
  triple-quoted string that is not a raw string, as the characters
  \<^verbatim>\<open>[^a-zA-Z0-9\\s\\.,-]\<close> between single quotes. Two layers read it before the regular
  expression engine does: Python's string literal, and the single-quoted string constant
  of the SQL text.
\<close>

definition backslash :: char where
  "backslash = CHR 0x5C"

definition pattern_in_source :: string where
  "pattern_in_source =
     ''[^a-zA-Z0-9'' @ [backslash, backslash, CHR ''s'', backslash, backslash, CHR ''.''] @ '',-]''"

text \<open>
  Python, non-raw literal: a recognised escape is replaced, an unrecognised one keeps its
  backslash.
\<close>

fun py_unescape :: "string \<Rightarrow> string" where
  "py_unescape (b # c # cs) =
     (if b = backslash then
        (if c = backslash then backslash # py_unescape cs
         else if c = CHR ''n'' then CHR 0x0A # py_unescape cs
         else if c = CHR ''t'' then CHR 0x09 # py_unescape cs
         else if c = CHR ''r'' then CHR 0x0D # py_unescape cs
         else if c = CHR 0x27 then CHR 0x27 # py_unescape cs
         else if c = CHR 0x22 then CHR 0x22 # py_unescape cs
         else backslash # c # py_unescape cs)
      else b # py_unescape (c # cs))"
| "py_unescape cs = cs"

text \<open>
  Snowflake, single-quoted string constant: a recognised escape is replaced, and a
  backslash before any other character is dropped (\<^verbatim>\<open>'\z'\<close> is the string \<^verbatim>\<open>z\<close>), which
  is why a regular expression in such a constant needs its backslashes doubled.
\<close>

fun sf_unescape :: "string \<Rightarrow> string" where
  "sf_unescape (b # c # cs) =
     (if b = backslash then
        (if c = backslash then backslash # sf_unescape cs
         else if c = CHR ''n'' then CHR 0x0A # sf_unescape cs
         else if c = CHR ''t'' then CHR 0x09 # sf_unescape cs
         else if c = CHR ''r'' then CHR 0x0D # sf_unescape cs
         else if c = CHR ''b'' then CHR 0x08 # sf_unescape cs
         else if c = CHR ''f'' then CHR 0x0C # sf_unescape cs
         else if c = CHR ''0'' then CHR 0x00 # sf_unescape cs
         else c # sf_unescape cs)
      else b # sf_unescape (c # cs))"
| "sf_unescape cs = cs"

text \<open>The SQL text that leaves Python, and the pattern the engine compiles.\<close>

definition pattern_in_sql :: string where
  "pattern_in_sql = py_unescape pattern_in_source"

definition pattern :: string where
  "pattern = sf_unescape pattern_in_sql"

text \<open>
  A negated bracket expression \<open>[^...]\<close>: ranges, single characters, and the
  backslash classes; a hyphen that does not stand between two characters is itself.
\<close>

datatype class_item = Lit char | Rng char char | Space_class | Digit_class | Word_class

definition is_space :: "char \<Rightarrow> bool" where
  "is_space c = (c = CHR '' '' \<or> c = CHR 0x09 \<or> c = CHR 0x0A \<or> c = CHR 0x0B
                 \<or> c = CHR 0x0C \<or> c = CHR 0x0D)"

definition in_range :: "char \<Rightarrow> char \<Rightarrow> char \<Rightarrow> bool" where
  "in_range lo hi c = ((of_char lo :: nat) \<le> of_char c \<and> (of_char c :: nat) \<le> of_char hi)"

definition is_digit :: "char \<Rightarrow> bool" where
  "is_digit c = in_range (CHR ''0'') (CHR ''9'') c"

definition is_letter :: "char \<Rightarrow> bool" where
  "is_letter c = (in_range (CHR ''a'') (CHR ''z'') c \<or> in_range (CHR ''A'') (CHR ''Z'') c)"

fun item_matches :: "char \<Rightarrow> class_item \<Rightarrow> bool" where
  "item_matches c (Lit d) = (c = d)"
| "item_matches c (Rng lo hi) = in_range lo hi c"
| "item_matches c Space_class = is_space c"
| "item_matches c Digit_class = is_digit c"
| "item_matches c Word_class = (is_letter c \<or> is_digit c \<or> c = CHR ''_'')"

definition escape_item :: "char \<Rightarrow> class_item" where
  "escape_item e =
     (if e = CHR ''s'' then Space_class
      else if e = CHR ''d'' then Digit_class
      else if e = CHR ''w'' then Word_class
      else Lit e)"

fun class_items :: "string \<Rightarrow> class_item list" where
  "class_items [] = []"
| "class_items [c] = (if c = CHR '']'' then [] else [Lit c])"
| "class_items [c, d] =
     (if c = CHR '']'' then []
      else if c = backslash then [escape_item d]
      else Lit c # class_items [d])"
| "class_items (c # d # e # cs) =
     (if c = CHR '']'' then []
      else if c = backslash then escape_item d # class_items (e # cs)
      else if d = CHR ''-'' \<and> e \<noteq> CHR '']'' then Rng c e # class_items cs
      else Lit c # class_items (d # e # cs))"

definition negated_class :: "string \<Rightarrow> class_item list option" where
  "negated_class p =
     (case p of
        a # b # rest \<Rightarrow> (if a = CHR ''['' \<and> b = CHR ''^'' then Some (class_items rest) else None)
      | _ \<Rightarrow> None)"

text \<open>
  \<open>REGEXP_REPLACE(subject, '[^...]', '')\<close>: every character the negated class matches,
  that is every character outside the listed items, is deleted. A NULL subject gives NULL.
\<close>

definition regexp_replace :: "string option \<Rightarrow> string \<Rightarrow> string option" where
  "regexp_replace subject p =
     (case negated_class p of
        None \<Rightarrow> subject
      | Some items \<Rightarrow> map_option (filter (\<lambda>c. list_ex (item_matches c) items)) subject)"

definition clean_string :: "string option \<Rightarrow> string option" where
  "clean_string s = regexp_replace s pattern"

subsection \<open>Dates\<close>

record date =
  year :: int
  month :: int
  day :: int

definition leap_year :: "int \<Rightarrow> bool" where
  "leap_year y = (if y mod 400 = 0 then True else if y mod 100 = 0 then False else y mod 4 = 0)"

definition days_in_month :: "int \<Rightarrow> int \<Rightarrow> int" where
  "days_in_month y m =
     (if m = 2 then (if leap_year y then 29 else 28)
      else if m = 4 \<or> m = 6 \<or> m = 9 \<or> m = 11 then 30
      else 31)"

definition valid_date :: "date \<Rightarrow> bool" where
  "valid_date d = (1 \<le> month d \<and> month d \<le> 12 \<and> 1 \<le> day d
                   \<and> day d \<le> days_in_month (year d) (month d))"

primrec digits_acc :: "nat \<Rightarrow> string \<Rightarrow> nat option" where
  "digits_acc a [] = Some a"
| "digits_acc a (c # cs) =
     (if is_digit c then digits_acc (10 * a + (of_char c - 48)) cs else None)"

definition digits_value :: "string \<Rightarrow> nat option" where
  "digits_value s = (if s = [] then None else digits_acc 0 s)"

definition make_date :: "nat option \<Rightarrow> nat option \<Rightarrow> nat option \<Rightarrow> date option" where
  "make_date y m d =
     (case y of None \<Rightarrow> None | Some yv \<Rightarrow>
      (case m of None \<Rightarrow> None | Some mv \<Rightarrow>
       (case d of None \<Rightarrow> None | Some dv \<Rightarrow>
          (let r = \<lparr>year = int yv, month = int mv, day = int dv\<rparr>
           in if valid_date r then Some r else None))))"

text \<open>
  The two date formats of the statement, read strictly: \<open>YYYY\<close> is four digits, \<open>MM\<close>
  and \<open>DD\<close> two, the separators are hyphens, and the day exists in the month.
\<close>

definition parse_yyyymmdd :: "string \<Rightarrow> date option" where
  "parse_yyyymmdd t =
     (if length t = 8
      then make_date (digits_value (take 4 t)) (digits_value (take 2 (drop 4 t)))
             (digits_value (drop 6 t))
      else None)"

definition parse_ddmmyyyy :: "string \<Rightarrow> date option" where
  "parse_ddmmyyyy t =
     (if length t = 10 \<and> t ! 2 = CHR ''-'' \<and> t ! 5 = CHR ''-''
      then make_date (digits_value (drop 6 t)) (digits_value (take 2 (drop 3 t)))
             (digits_value (take 2 t))
      else None)"

text \<open>\<open>TO_DATE(s, 'YYYYMMDD')\<close>: NULL for NULL, and the statement fails on a string that
  is not a date.\<close>

definition to_date_yyyymmdd :: "string option \<Rightarrow> sql_error + date option" where
  "to_date_yyyymmdd s =
     (case s of
        None \<Rightarrow> Inr None
      | Some t \<Rightarrow> (case parse_yyyymmdd t of
                     None \<Rightarrow> Inl (Date_Parse_Error t)
                   | Some d \<Rightarrow> Inr (Some d)))"

text \<open>\<open>TRY_TO_DATE(s, 'DD-MM-YYYY')\<close>: NULL for NULL and for a string that is not a date.\<close>

definition try_to_date :: "string option \<Rightarrow> date option" where
  "try_to_date s = (case s of None \<Rightarrow> None | Some t \<Rightarrow> parse_ddmmyyyy t)"

definition digit_char :: "nat \<Rightarrow> char" where
  "digit_char k = ''0123456789'' ! k"

text \<open>\<open>TO_CHAR(d, 'YYYYMM')\<close>: four digits of the year, two of the month.\<close>

definition to_char_yyyymm :: "date option \<Rightarrow> string option" where
  "to_char_yyyymm d =
     map_option
       (\<lambda>x. let y = nat (year x); m = nat (month x)
            in [digit_char (y div 1000 mod 10), digit_char (y div 100 mod 10),
                digit_char (y div 10 mod 10), digit_char (y mod 10),
                digit_char (m div 10 mod 10), digit_char (m mod 10)]) d"

text \<open>\<open>DATE_TRUNC('MONTH', d)\<close>.\<close>

definition date_trunc_month :: "date \<Rightarrow> date" where
  "date_trunc_month d = d\<lparr>day := 1\<rparr>"

text \<open>
  \<open>ADD_MONTHS(d, n)\<close>: the day is kept, except that the last day of a month goes to the
  last day of the new month and a day the new month does not have goes to its last day.
\<close>

definition add_months :: "date \<Rightarrow> int \<Rightarrow> date" where
  "add_months d n =
     (let t = year d * 12 + (month d - 1) + n;
          y = t div 12;
          m = t mod 12 + 1;
          l = days_in_month y m
      in \<lparr>year = y, month = m,
          day = (if day d = days_in_month (year d) (month d) then l else min (day d) l)\<rparr>)"

text \<open>\<open>n::STRING\<close> for an integer column: its decimal digits, with a sign when negative.\<close>

function string_of_nat :: "nat \<Rightarrow> string" where
  "string_of_nat n = (if n < 10 then [digit_char n] else string_of_nat (n div 10) @ [digit_char (n mod 10)])"
  by pat_completeness auto
termination
  by (relation "measure id") auto

declare string_of_nat.simps [simp del]

definition cast_string :: "int option \<Rightarrow> string option" where
  "cast_string v =
     map_option (\<lambda>i. if i < 0 then CHR ''-'' # string_of_nat (nat (- i)) else string_of_nat (nat i)) v"

subsection \<open>Tables\<close>

text \<open>
  No table declaration is part of the source. The columns are those the statements name;
  identifiers and texts are strings, amounts are fixed-point numbers scaled to integers,
  \<open>tbl_dt\<close> is the integer the statement casts to a string, and columns the statements
  only copy are kept as they are.
\<close>

text \<open>\<open>STG.raw_data.ORDERS\<close>\<close>

record stg_row =
  stg_RowID :: "int option"
  stg_OrderID :: "string option"
  stg_OrderDate :: "string option"
  stg_ShipDate :: "string option"
  stg_ShipMode :: "string option"
  stg_CustomerID :: "string option"
  stg_Segment :: "string option"
  stg_Country :: "string option"
  stg_ProductID :: "string option"
  stg_Sales :: "int option"
  stg_Quantity :: "int option"
  stg_Discount :: "int option"
  stg_Profit :: "int option"
  stg_postalcode :: "string option"
  stg_CustomerName :: "string option"
  stg_City :: "string option"
  stg_State :: "string option"
  stg_Region :: "string option"
  stg_Category :: "string option"
  stg_ProductName :: "string option"
  stg_tbl_dt :: "int option"
  stg_ingested_at :: "string option"
  stg_FILE_NAME :: "string option"
  stg_offset_id :: "int option"

text \<open>\<open>transformed.public.PRODUCT_SUBCATEGORY_MAP\<close>\<close>

record map_row =
  m_PRODUCTNAME :: "string option"
  m_SUBCATEGORY :: "string option"

text \<open>\<open>Transformed.public.ORDERS\<close>, in the order of the select list.\<close>

record orders_row =
  o_RowID :: "int option"
  o_OrderID :: "string option"
  o_OrderDate :: "date option"
  o_ShipDate :: "date option"
  o_ShipMode :: "string option"
  o_CustomerID :: "string option"
  o_Segment :: "string option"
  o_Country :: "string option"
  o_ProductID :: "string option"
  o_Sales :: "int option"
  o_Quantity :: "int option"
  o_Discount :: "int option"
  o_Profit :: "int option"
  o_postalcode :: "string option"
  o_CustomerName :: "string option"
  o_City :: "string option"
  o_State :: "string option"
  o_Region :: "string option"
  o_Category :: "string option"
  o_SubCategory :: "string option"
  o_ProductName :: "string option"
  o_actual_date :: "date option"
  o_TBL_DT :: "int option"
  o_ingested_at :: "string option"
  o_FILE_NAME :: "string option"
  o_offset_id :: "int option"

record customers_row =
  c_customerid :: "string option"
  c_customername :: "string option"
  c_segment :: "string option"

record products_row =
  p_productid :: "string option"
  p_category :: "string option"
  p_subcategory :: "string option"
  p_productname :: "string option"

record geography_row =
  g_geography_id :: "int option"
  g_country :: "string option"
  g_city :: "string option"
  g_state :: "string option"
  g_postalcode :: "string option"
  g_region :: "string option"

record fact_row =
  f_orderid :: "string option"
  f_orderdate :: "date option"
  f_shipdate :: "date option"
  f_shipmode :: "string option"
  f_sales :: "int option"
  f_quantity :: "int option"
  f_discount :: "int option"
  f_profit :: "int option"
  f_customerid :: "string option"
  f_productid :: "string option"
  f_geoid :: "int option"

text \<open>The CTE \<open>latest_files\<close>\<close>

record latest_files_row =
  lf_business_month :: "string option"
  lf_max_tbl_dt :: "int option"

text \<open>
  The warehouse. Modelled from the spec: the declaration of \<open>geography\<close> is not in the
  source; its \<open>geography_id\<close>, which no statement sets, is a surrogate key, taken here
  from a sequence (\<open>geography_seq\<close> is the last value given out).
\<close>

record warehouse =
  stg_orders :: "stg_row list"
  subcategory_map :: "map_row list"
  orders :: "orders_row list"
  customers :: "customers_row list"
  products :: "products_row list"
  geography :: "geography_row list"
  geography_seq :: int
  fact_orders :: "fact_row list"

subsection \<open>RUN\_INSERT\_ORDERS\<close>

text \<open>\<open>TO_CHAR(TRY_TO_DATE(OrderDate, 'DD-MM-YYYY'), 'YYYYMM')\<close>\<close>

definition business_month :: "stg_row \<Rightarrow> string option" where
  "business_month r = to_char_yyyymm (try_to_date (stg_OrderDate r))"

text \<open>
  The WHERE clause of the CTE:
  \<open>DATE_TRUNC('MONTH', TO_DATE(tbl_dt::STRING, 'YYYYMMDD')) = DATE_TRUNC('MONTH', ADD_MONTHS(CURRENT_DATE, -1))\<close>.
  \<open>today\<close> is \<open>CURRENT_DATE\<close>.
\<close>

definition in_target_month :: "date \<Rightarrow> stg_row \<Rightarrow> sql_error + bool" where
  "in_target_month today r =
     (case to_date_yyyymmdd (cast_string (stg_tbl_dt r)) of
        Inl e \<Rightarrow> Inl e
      | Inr d \<Rightarrow> Inr (is_true (sql_eq (map_option date_trunc_month d)
                                 (Some (date_trunc_month (add_months today (- 1)))))))"

fun where_target_month :: "date \<Rightarrow> stg_row list \<Rightarrow> sql_error + stg_row list" where
  "where_target_month today [] = Inr []"
| "where_target_month today (r # rs) =
     (case in_target_month today r of
        Inl e \<Rightarrow> Inl e
      | Inr keep \<Rightarrow> (case where_target_month today rs of
                       Inl e \<Rightarrow> Inl e
                     | Inr ks \<Rightarrow> Inr (if keep then r # ks else ks)))"

text \<open>\<open>SELECT ... AS business_month, MAX(tbl_dt) AS max_tbl_dt ... GROUP BY 1\<close>: one row
  for each distinct key, NULL being one key.\<close>

definition group_latest :: "stg_row list \<Rightarrow> latest_files_row list" where
  "group_latest rows =
     map (\<lambda>b. \<lparr>lf_business_month = b,
                lf_max_tbl_dt = sql_max (map stg_tbl_dt (filter (\<lambda>r. business_month r = b) rows))\<rparr>)
       (remdups (map business_month rows))"

definition latest_files :: "date \<Rightarrow> stg_row list \<Rightarrow> sql_error + latest_files_row list" where
  "latest_files today stg =
     (case where_target_month today stg of Inl e \<Rightarrow> Inl e | Inr ks \<Rightarrow> Inr (group_latest ks))"

text \<open>\<open>JOIN latest_files lf ON TO_CHAR(...) = lf.business_month AND o.tbl_dt = lf.max_tbl_dt\<close>\<close>

definition join_on :: "stg_row \<Rightarrow> latest_files_row \<Rightarrow> bool" where
  "join_on r lf =
     is_true (sql_and (sql_eq (business_month r) (lf_business_month lf))
                      (sql_eq (stg_tbl_dt r) (lf_max_tbl_dt lf)))"

text \<open>\<open>LEFT JOIN ... m ON REGEXP_REPLACE(o.ProductName, ...) = m.PRODUCTNAME\<close>: every
  matching row of the map, or one row of NULLs when there is none.\<close>

definition left_join_map :: "map_row list \<Rightarrow> stg_row \<Rightarrow> map_row option list" where
  "left_join_map mp r =
     (case filter (\<lambda>m. is_true (sql_eq (clean_string (stg_ProductName r)) (m_PRODUCTNAME m))) mp of
        [] \<Rightarrow> [None]
      | ms \<Rightarrow> map Some ms)"

definition coalesce :: "'a option \<Rightarrow> 'a \<Rightarrow> 'a option" where
  "coalesce a b = (case a of None \<Rightarrow> Some b | Some x \<Rightarrow> Some x)"

text \<open>\<open>WHERE o.Profit > 0 AND TRY_TO_DATE(o.OrderDate, 'DD-MM-YYYY') IS NOT NULL\<close>\<close>

definition where_clause :: "stg_row \<Rightarrow> bool" where
  "where_clause r =
     is_true (sql_and (sql_gt (stg_Profit r) (Some 0))
                      (sql_is_not_null (try_to_date (stg_OrderDate r))))"

definition select_list :: "stg_row \<Rightarrow> map_row option \<Rightarrow> orders_row" where
  "select_list r m =
     \<lparr>o_RowID = stg_RowID r,
      o_OrderID = stg_OrderID r,
      o_OrderDate = try_to_date (stg_OrderDate r),
      o_ShipDate = try_to_date (stg_ShipDate r),
      o_ShipMode = stg_ShipMode r,
      o_CustomerID = stg_CustomerID r,
      o_Segment = stg_Segment r,
      o_Country = stg_Country r,
      o_ProductID = stg_ProductID r,
      o_Sales = stg_Sales r,
      o_Quantity = stg_Quantity r,
      o_Discount = stg_Discount r,
      o_Profit = stg_Profit r,
      o_postalcode = stg_postalcode r,
      o_CustomerName = clean_string (stg_CustomerName r),
      o_City = clean_string (stg_City r),
      o_State = clean_string (stg_State r),
      o_Region = clean_string (stg_Region r),
      o_Category = clean_string (stg_Category r),
      o_SubCategory = coalesce (case m of None \<Rightarrow> None | Some x \<Rightarrow> m_SUBCATEGORY x) ''Unmapped'',
      o_ProductName = clean_string (stg_ProductName r),
      o_actual_date = try_to_date (stg_OrderDate r),
      o_TBL_DT = stg_tbl_dt r,
      o_ingested_at = stg_ingested_at r,
      o_FILE_NAME = stg_FILE_NAME r,
      o_offset_id = stg_offset_id r\<rparr>"

text \<open>The rows the SELECT produces from one staging row \<open>r\<close>, and from the whole table.\<close>

definition orders_select_from ::
  "latest_files_row list \<Rightarrow> map_row list \<Rightarrow> stg_row \<Rightarrow> orders_row list" where
  "orders_select_from lfs mp r =
     [select_list r m. lf \<leftarrow> lfs, join_on r lf, m \<leftarrow> left_join_map mp r, where_clause r]"

definition orders_select :: "date \<Rightarrow> warehouse \<Rightarrow> sql_error + orders_row list" where
  "orders_select today w =
     (case latest_files today (stg_orders w) of
        Inl e \<Rightarrow> Inl e
      | Inr lfs \<Rightarrow> Inr (concat (map (orders_select_from lfs (subcategory_map w)) (stg_orders w))))"

text \<open>\<open>INSERT INTO Transformed.public.ORDERS ...\<close>\<close>

definition RUN_INSERT_ORDERS :: "date \<Rightarrow> warehouse \<Rightarrow> sql_error + warehouse" where
  "RUN_INSERT_ORDERS today w =
     (case orders_select today w of
        Inl e \<Rightarrow> Inl e
      | Inr rows \<Rightarrow> Inr (w\<lparr>orders := orders w @ rows\<rparr>))"

subsection \<open>The MERGE statements\<close>

text \<open>
  \<open>MERGE INTO t USING s ON c WHEN NOT MATCHED THEN INSERT\<close>: every row of the source
  for which no row of the target, as it is when the statement starts, makes the
  condition true is inserted. The source rows are not compared with each other.
\<close>

definition not_matched :: "('s \<Rightarrow> 't \<Rightarrow> bool) \<Rightarrow> 's list \<Rightarrow> 't list \<Rightarrow> 's list" where
  "not_matched on src tgt = filter (\<lambda>s. \<not> list_ex (on s) tgt) src"

text \<open>RUN\_INSERT\_CUSTOMERS\<close>

definition customers_source :: "warehouse \<Rightarrow> customers_row list" where
  "customers_source w =
     remdups (map (\<lambda>x. \<lparr>c_customerid = o_CustomerID x, c_customername = o_CustomerName x,
                         c_segment = o_Segment x\<rparr>) (orders w))"

definition customers_on :: "customers_row \<Rightarrow> customers_row \<Rightarrow> bool" where
  "customers_on s c = is_true (sql_eq (c_customerid c) (c_customerid s))"

definition RUN_INSERT_CUSTOMERS :: "warehouse \<Rightarrow> sql_error + warehouse" where
  "RUN_INSERT_CUSTOMERS w =
     Inr (w\<lparr>customers := customers w @
               map (\<lambda>s. \<lparr>c_customerid = c_customerid s, c_customername = c_customername s,
                          c_segment = c_segment s\<rparr>)
                 (not_matched customers_on (customers_source w) (customers w))\<rparr>)"

text \<open>RUN\_INSERT\_PRODUCTS\<close>

definition products_source :: "warehouse \<Rightarrow> products_row list" where
  "products_source w =
     remdups (map (\<lambda>x. \<lparr>p_productid = o_ProductID x, p_category = o_Category x,
                         p_subcategory = o_SubCategory x, p_productname = o_ProductName x\<rparr>)
                (orders w))"

definition products_on :: "products_row \<Rightarrow> products_row \<Rightarrow> bool" where
  "products_on s p = is_true (sql_eq (p_productid p) (p_productid s))"

definition RUN_INSERT_PRODUCTS :: "warehouse \<Rightarrow> sql_error + warehouse" where
  "RUN_INSERT_PRODUCTS w =
     Inr (w\<lparr>products := products w @
               map (\<lambda>s. \<lparr>p_productid = p_productid s, p_category = p_category s,
                          p_subcategory = p_subcategory s, p_productname = p_productname s\<rparr>)
                 (not_matched products_on (products_source w) (products w))\<rparr>)"

text \<open>RUN\_INSERT\_GEOGRAPHY. The source has no \<open>geography_id\<close>.\<close>

record geography_key =
  k_country :: "string option"
  k_city :: "string option"
  k_state :: "string option"
  k_postalcode :: "string option"
  k_region :: "string option"

definition geography_source :: "warehouse \<Rightarrow> geography_key list" where
  "geography_source w =
     remdups (map (\<lambda>x. \<lparr>k_country = o_Country x, k_city = o_City x, k_state = o_State x,
                         k_postalcode = o_postalcode x, k_region = o_Region x\<rparr>) (orders w))"

definition geography_on :: "geography_key \<Rightarrow> geography_row \<Rightarrow> bool" where
  "geography_on s g =
     is_true (sql_and (sql_eq (g_country g) (k_country s))
             (sql_and (sql_eq (g_city g) (k_city s))
             (sql_and (sql_eq (g_state g) (k_state s))
             (sql_and (sql_eq (g_postalcode g) (k_postalcode s))
                      (sql_eq (g_region g) (k_region s))))))"

definition geography_values :: "int \<Rightarrow> geography_key list \<Rightarrow> geography_row list" where
  "geography_values seq new =
     map (\<lambda>(i, s). \<lparr>g_geography_id = Some (seq + 1 + int i), g_country = k_country s,
                      g_city = k_city s, g_state = k_state s, g_postalcode = k_postalcode s,
                      g_region = k_region s\<rparr>)
       (enumerate 0 new)"

definition RUN_INSERT_GEOGRAPHY :: "warehouse \<Rightarrow> sql_error + warehouse" where
  "RUN_INSERT_GEOGRAPHY w =
     (let new = not_matched geography_on (geography_source w) (geography w)
      in Inr (w\<lparr>geography := geography w @ geography_values (geography_seq w) new,
                geography_seq := geography_seq w + int (length new)\<rparr>))"

text \<open>RUN\_INSERT\_FACT\_ORDER. The source joins each cleaned order with its customer,
  product and geography rows; the rows it yields from one order \<open>x\<close>, and from all.\<close>

definition fact_geography_on :: "orders_row \<Rightarrow> geography_row \<Rightarrow> bool" where
  "fact_geography_on x g =
     is_true (sql_and (sql_eq (o_Country x) (g_country g))
             (sql_and (sql_eq (o_City x) (g_city g))
             (sql_and (sql_eq (o_State x) (g_state g))
             (sql_and (sql_eq (o_postalcode x) (g_postalcode g))
                      (sql_eq (o_Region x) (g_region g))))))"

definition fact_source_from :: "warehouse \<Rightarrow> orders_row \<Rightarrow> fact_row list" where
  "fact_source_from w x =
     [\<lparr>f_orderid = o_OrderID x, f_orderdate = o_OrderDate x, f_shipdate = o_ShipDate x,
       f_shipmode = o_ShipMode x, f_sales = o_Sales x, f_quantity = o_Quantity x,
       f_discount = o_Discount x, f_profit = o_Profit x, f_customerid = c_customerid c,
       f_productid = p_productid p, f_geoid = g_geography_id g\<rparr>.
      c \<leftarrow> customers w, is_true (sql_eq (o_CustomerID x) (c_customerid c)),
      p \<leftarrow> products w, is_true (sql_eq (o_ProductID x) (p_productid p)),
      g \<leftarrow> geography w, fact_geography_on x g]"

definition fact_source :: "warehouse \<Rightarrow> fact_row list" where
  "fact_source w = concat (map (fact_source_from w) (orders w))"

definition fact_on :: "fact_row \<Rightarrow> fact_row \<Rightarrow> bool" where
  "fact_on s f = is_true (sql_eq (f_orderid f) (f_orderid s))"

text \<open>The rows the MERGE inserts that come from one order \<open>x\<close>.\<close>

definition fact_insert_from :: "warehouse \<Rightarrow> orders_row \<Rightarrow> fact_row list" where
  "fact_insert_from w x = not_matched fact_on (fact_source_from w x) (fact_orders w)"

definition RUN_INSERT_FACT_ORDER :: "warehouse \<Rightarrow> sql_error + warehouse" where
  "RUN_INSERT_FACT_ORDER w =
     Inr (w\<lparr>fact_orders := fact_orders w @ not_matched fact_on (fact_source w) (fact_orders w)\<rparr>)"

subsection \<open>The DAG\<close>

text \<open>
  \<open>start >> RUN_INSERT_ORDERS >> RUN_INSERT_CUSTOMERS >> RUN_INSERT_PRODUCTS >>
  RUN_INSERT_GEOGRAPHY >> RUN_INSERT_FACT_ORDER >> end\<close>: each task runs when the one
  before it has succeeded; a failed task stops the run, and what earlier tasks wrote stays.
\<close>

type_synonym task = "warehouse \<Rightarrow> sql_error + warehouse"

fun run_tasks :: "task list \<Rightarrow> warehouse \<Rightarrow> sql_error option \<times> warehouse" where
  "run_tasks [] w = (None, w)"
| "run_tasks (t # ts) w = (case t w of Inl e \<Rightarrow> (Some e, w) | Inr w' \<Rightarrow> run_tasks ts w')"

definition dag :: "date \<Rightarrow> task list" where
  "dag today =
     [Inr, RUN_INSERT_ORDERS today, RUN_INSERT_CUSTOMERS, RUN_INSERT_PRODUCTS,
      RUN_INSERT_GEOGRAPHY, RUN_INSERT_FACT_ORDER, Inr]"

definition monthly_orders_insert :: "date \<Rightarrow> warehouse \<Rightarrow> sql_error option \<times> warehouse" where
  "monthly_orders_insert today w = run_tasks (dag today) w"

subsection \<open>Sample data\<close>

text \<open>
  One staging row of the batch of 31 March 2024, ordered on 15 March with a profit, and
  the run of 1 April 2024, whose target month is March; the sample rows of the
  statements below are variations of it.
\<close>

definition order_row :: stg_row where
  "order_row = \<lparr>stg_RowID = Some 1, stg_OrderID = Some ''CA-1'', stg_OrderDate = Some ''15-03-2024'',
     stg_ShipDate = Some ''18-03-2024'', stg_ShipMode = Some ''Standard'', stg_CustomerID = Some ''C1'',
     stg_Segment = Some ''Consumer'', stg_Country = Some ''US'', stg_ProductID = Some ''P1'',
     stg_Sales = Some 26196, stg_Quantity = Some 2, stg_Discount = Some 0, stg_Profit = Some 100,
     stg_postalcode = Some ''42420'', stg_CustomerName = Some ''Ann Lee'', stg_City = Some ''Henderson'',
     stg_State = Some ''Kentucky'', stg_Region = Some ''South'', stg_Category = Some ''Furniture'',
     stg_ProductName = Some ''Chair #1!'', stg_tbl_dt = Some 20240331, stg_ingested_at = None,
     stg_FILE_NAME = Some ''orders.csv'', stg_offset_id = Some 0\<rparr>"

definition run_date :: date where "run_date = \<lparr>year = 2024, month = 4, day = 1\<rparr>"

definition march_files :: latest_files_row where
  "march_files = \<lparr>lf_business_month = Some ''202403'', lf_max_tbl_dt = Some 20240331\<rparr>"

definition empty_wh :: warehouse where
  "empty_wh = \<lparr>stg_orders = [], subcategory_map = [], orders = [], customers = [], products = [],
     geography = [], geography_seq = 0, fact_orders = []\<rparr>"

definition loss_row :: stg_row where
  "loss_row = order_row\<lparr>stg_RowID := Some 2, stg_Profit := Some 0\<rparr>"

section \<open>Properties\<close>

subsection \<open>The sample run, step by step\<close>

lemma cast_20240331: "cast_string (Some 20240331) = Some ''20240331''"
  by (simp add: cast_string_def string_of_nat.simps digit_char_def)

lemma to_date_20240331:
  "to_date_yyyymmdd (Some ''20240331'') = Inr (Some \<lparr>year = 2024, month = 3, day = 31\<rparr>)"
  by (simp add: to_date_yyyymmdd_def parse_yyyymmdd_def digits_value_def make_date_def is_digit_def
      in_range_def valid_date_def days_in_month_def)

lemma try_to_date_15_03_2024:
  "try_to_date (Some ''15-03-2024'') = Some \<lparr>year = 2024, month = 3, day = 15\<rparr>"
  by (simp add: try_to_date_def parse_ddmmyyyy_def digits_value_def make_date_def is_digit_def
      in_range_def valid_date_def days_in_month_def)

lemma target_of_run_date:
  "date_trunc_month (add_months run_date (- 1)) = \<lparr>year = 2024, month = 3, day = 1\<rparr>"
  by (simp add: date_trunc_month_def add_months_def run_date_def Let_def)

lemma business_month_order_row: "business_month order_row = Some ''202403''"
  by (simp add: business_month_def order_row_def try_to_date_15_03_2024 to_char_yyyymm_def digit_char_def)

lemma in_target_month_order_row: "in_target_month run_date order_row = Inr True"
  by (simp add: in_target_month_def order_row_def cast_20240331 to_date_20240331 target_of_run_date
      sql_eq_def is_true_def) (simp add: date_trunc_month_def)

lemma latest_files_order_row: "latest_files run_date [order_row] = Inr [march_files]"
  by (simp add: latest_files_def in_target_month_order_row group_latest_def business_month_order_row
      march_files_def) (simp add: order_row_def)

lemma where_clause_order_row: "where_clause order_row"
  by (simp add: where_clause_def order_row_def try_to_date_15_03_2024 sql_and_def sql_gt_def
      sql_is_not_null_def is_true_def)

lemma join_on_order_row: "join_on order_row march_files"
  by (simp add: join_on_def business_month_order_row march_files_def sql_and_def sql_eq_def is_true_def)
     (simp add: order_row_def)

lemma select_from_order_row:
  "orders_select_from [march_files] [] order_row = [select_list order_row None]"
  by (simp add: orders_select_from_def join_on_order_row where_clause_order_row left_join_map_def)

subsection \<open>RUN\_INSERT\_ORDERS: what a staging row yields\<close>

lemma concat_map_skip:
  "f r = [] \<Longrightarrow> concat (map f xs) = concat (map f (filter (\<lambda>x. x \<noteq> r) xs))"
  by (induction xs) auto

lemma where_clause_iff:
  "where_clause r \<longleftrightarrow> (\<exists>p. stg_Profit r = Some p \<and> 0 < p) \<and> try_to_date (stg_OrderDate r) \<noteq> None"
  by (auto simp: where_clause_def is_true_def sql_and_def sql_gt_def sql_is_not_null_def
      split: option.splits)

lemma select_from_where_false: "\<not> where_clause r \<Longrightarrow> orders_select_from lfs mp r = []"
  by (auto simp: orders_select_from_def)

lemma run_orders_Inr:
  "RUN_INSERT_ORDERS today w = Inr w' \<Longrightarrow>
   \<exists>lfs. latest_files today (stg_orders w) = Inr lfs \<and>
     w' = w\<lparr>orders := orders w @ concat (map (orders_select_from lfs (subcategory_map w)) (stg_orders w))\<rparr>"
  by (auto simp: RUN_INSERT_ORDERS_def orders_select_def split: sum.splits)

text \<open>
  Claim C8. A staging row whose Profit is at most zero, or whose OrderDate has no
  DD-MM-YYYY reading, yields no row of cleaned-orders: whenever the statement succeeds, the
  new warehouse is the old one with the cleaned-orders table extended by what the other
  staging rows yield. Nothing else is written, so no rejection record exists.
\<close>

theorem C8_filter:
  assumes "(\<exists>p. stg_Profit r = Some p \<and> p \<le> 0) \<or> try_to_date (stg_OrderDate r) = None"
    and "RUN_INSERT_ORDERS today w = Inr w'"
  shows "\<exists>lfs. latest_files today (stg_orders w) = Inr lfs
           \<and> orders_select_from lfs (subcategory_map w) r = []
           \<and> w' = w\<lparr>orders := orders w @
                   concat (map (orders_select_from lfs (subcategory_map w))
                     (filter (\<lambda>x. x \<noteq> r) (stg_orders w)))\<rparr>"
proof -
  from assms(1) have nw: "\<not> where_clause r"
    by (auto simp: where_clause_iff)
  from run_orders_Inr [OF assms(2)] obtain lfs where
    lf: "latest_files today (stg_orders w) = Inr lfs" and
    w': "w' = w\<lparr>orders := orders w @ concat (map (orders_select_from lfs (subcategory_map w)) (stg_orders w))\<rparr>"
    by blast
  have e: "orders_select_from lfs (subcategory_map w) r = []"
    by (rule select_from_where_false [OF nw])
  from concat_map_skip [of "orders_select_from lfs (subcategory_map w)" r "stg_orders w", OF e] w' lf e
  show ?thesis by simp
qed

lemma profit_loss_row: "stg_Profit loss_row = Some 0"
  by (simp add: loss_row_def)

lemma in_target_month_loss_row: "in_target_month run_date loss_row = Inr True"
  using in_target_month_order_row by (simp add: in_target_month_def loss_row_def)

lemma business_month_loss_row: "business_month loss_row = Some ''202403''"
  using business_month_order_row by (simp add: business_month_def loss_row_def)

lemma latest_files_loss_row: "latest_files run_date [loss_row] = Inr [march_files]"
  by (simp add: latest_files_def in_target_month_loss_row group_latest_def business_month_loss_row
      march_files_def) (simp add: loss_row_def order_row_def)

lemma run_loss_row:
  "RUN_INSERT_ORDERS run_date (empty_wh\<lparr>stg_orders := [loss_row]\<rparr>) = Inr (empty_wh\<lparr>stg_orders := [loss_row]\<rparr>)"
  by (simp add: RUN_INSERT_ORDERS_def orders_select_def latest_files_loss_row
      select_from_where_false where_clause_iff profit_loss_row)

theorem C8_filter_witness:
  "stg_Profit loss_row = Some 0
   \<and> RUN_INSERT_ORDERS run_date (empty_wh\<lparr>stg_orders := [loss_row]\<rparr>) = Inr (empty_wh\<lparr>stg_orders := [loss_row]\<rparr>)
   \<and> orders_select_from [march_files] [] loss_row = []
   \<and> orders (empty_wh\<lparr>stg_orders := [loss_row]\<rparr>) = []"
proof -
  have h: "(\<exists>p. stg_Profit loss_row = Some p \<and> p \<le> 0) \<or> try_to_date (stg_OrderDate loss_row) = None"
    by (simp add: profit_loss_row)
  from C8_filter [OF h run_loss_row]
  have "orders_select_from [march_files] [] loss_row = []"
    by (simp add: latest_files_loss_row empty_wh_def)
  then show ?thesis
    using run_loss_row profit_loss_row by (simp add: empty_wh_def)
qed

end
